theory Spec2Isabelle
  imports Complex_Main "HOL-Library.Log_Nat"
begin

section \<open>Crosspoint: the quiz session and the verification merge of App.tsx\<close>

text \<open>
  The development embeds the client logic of \<^verbatim>\<open>src/src/App.tsx\<close>: the component
  \<^verbatim>\<open>ActiveQuiz\<close> (its local state, \<^verbatim>\<open>handleAnswerSelect\<close>, \<^verbatim>\<open>handleNext\<close> and the callback
  it schedules), the \<^verbatim>\<open>onComplete\<close> wrapper of \<^verbatim>\<open>QuizCategorySelectionView\<close>,
  \<^verbatim>\<open>handleQuizComplete\<close>, \<^verbatim>\<open>handlePostQuestion\<close>, the two snapshot listeners, the start-up
  effect and the top-level render decision.

  A JavaScript string is a \<^typ>\<open>string\<close>; \<^verbatim>\<open>string | null\<close> is a \<^typ>\<open>string option\<close>.
  A state hook is a field of a record, and a handler is a function from the record to the
  updated record. What the hosted services answer (whether a write resolves, which error a
  listener reports) is an argument of the handler that awaits it.
\<close>

subsection \<open>JavaScript values\<close>

text \<open>
  \<^verbatim>\<open>!v\<close> on a \<^verbatim>\<open>string | null\<close>: \<^verbatim>\<open>null\<close> and the empty string are both falsy.
\<close>

definition truthy :: "string option \<Rightarrow> bool" where
  "truthy v = (case v of None \<Rightarrow> False | Some s \<Rightarrow> s \<noteq> [])"

text \<open>\<^verbatim>\<open>xs[i]\<close>: \<^verbatim>\<open>undefined\<close> out of range, here \<open>None\<close>.\<close>

definition index_opt :: "'a list \<Rightarrow> nat \<Rightarrow> 'a option" where
  "index_opt xs i = (if i < length xs then Some (xs ! i) else None)"

datatype js_error = TypeError

subsection \<open>Quiz bank\<close>

record QuizQuestion =
  question :: string
  options :: "string list"
  answer :: string

type_synonym QuizData = "(string \<times> QuizQuestion list) list"

definition QUIZ_DATA :: QuizData where
  "QUIZ_DATA =
    [(''Physics'',
       [\<lparr>question = ''What principle states that the total momentum of a closed system remains constant?'',
         options = [''Huygens' Principle'', ''Principle of Conservation of Momentum'',
                    ''Archimedes' Principle'', ''Bernoulli's Principle''],
         answer = ''Principle of Conservation of Momentum''\<rparr>,
        \<lparr>question = ''What is the SI unit of electric current?'',
         options = [''Volt'', ''Ohm'', ''Ampere'', ''Watt''],
         answer = ''Ampere''\<rparr>,
        \<lparr>question = ''Which phenomenon is responsible for the apparent bending of a spoon in a glass of water?'',
         options = [''Diffraction'', ''Refraction'', ''Polarization'', ''Interference''],
         answer = ''Refraction''\<rparr>]),
     (''Web Development'',
       [\<lparr>question = ''Which CSS property is used to create space around elements, outside of any defined borders?'',
         options = [''padding'', ''margin'', ''border-width'', ''inset''],
         answer = ''margin''\<rparr>,
        \<lparr>question = ''In React, what is used to handle data that changes over time within a component?'',
         options = [''props'', ''state'', ''context'', ''refs''],
         answer = ''state''\<rparr>]),
     (''Financial Modeling'',
       [\<lparr>question = ''What does NPV stand for in financial modeling?'',
         options = [''Net Profit Variance'', ''Nominal Price Value'', ''Net Present Value'',
                    ''New Project Valuation''],
         answer = ''Net Present Value''\<rparr>])]"

subsection \<open>The component ActiveQuiz\<close>

text \<open>
  The props \<^verbatim>\<open>category\<close> and \<^verbatim>\<open>quizData\<close>, and the five state hooks with the timer.
  \<open>timerRef\<close> holds the callback that \<^verbatim>\<open>window.setTimeout\<close> has scheduled and not yet run:
  the callback closes over \<^verbatim>\<open>isLastQuestion\<close> and \<^verbatim>\<open>finalScore\<close> of the render in which
  \<^verbatim>\<open>handleNext\<close> ran, so those two values are what is stored.
\<close>

record ActiveQuizProps =
  category :: string
  quizData :: "QuizQuestion list"

record scheduled =
  isLastQuestion :: bool
  finalScore :: nat

record ActiveQuizState =
  currentQuestionIndex :: nat
  score :: nat
  selectedOption :: "string option"
  showResult :: bool
  pendingAdvance :: bool
  timerRef :: "scheduled option"

text \<open>The arguments of \<^verbatim>\<open>onComplete(category, finalScore, total)\<close>, each of them nullable.\<close>

type_synonym completion = "string option \<times> nat option \<times> nat option"

definition initialQuiz :: ActiveQuizState where
  "initialQuiz = \<lparr>currentQuestionIndex = 0, score = 0, selectedOption = None,
                  showResult = False, pendingAdvance = False, timerRef = None\<rparr>"

definition handleAnswerSelect :: "string \<Rightarrow> ActiveQuizState \<Rightarrow> ActiveQuizState" where
  "handleAnswerSelect opt q = (if showResult q then q else q\<lparr>selectedOption := Some opt\<rparr>)"

text \<open>
  \<^verbatim>\<open>handleNext\<close>. \<^verbatim>\<open>isLastQuestion\<close> is \<^verbatim>\<open>currentQuestionIndex === totalQuestions - 1\<close>, a
  comparison of numbers, so the subtraction is done on integers. Reading \<^verbatim>\<open>.answer\<close> of
  \<^verbatim>\<open>quizData[currentQuestionIndex]\<close> throws when the index is out of range.
\<close>

definition handleNext :: "ActiveQuizProps \<Rightarrow> ActiveQuizState \<Rightarrow> js_error + ActiveQuizState" where
  "handleNext p q =
     (if \<not> truthy (selectedOption q) \<or> showResult q \<or> pendingAdvance q then Inr q
      else case index_opt (quizData p) (currentQuestionIndex q) of
             None \<Rightarrow> Inl TypeError
           | Some currentQuestion \<Rightarrow>
               let isCorrect = (selectedOption q = Some (answer currentQuestion));
                   fs = score q + (if isCorrect then 1 else 0)
               in Inr (q\<lparr>showResult := True, pendingAdvance := True,
                        timerRef := Some \<lparr>isLastQuestion =
                                            (int (currentQuestionIndex q) = int (length (quizData p)) - 1),
                                          finalScore = fs\<rparr>\<rparr>))"

text \<open>
  A session is the mounted component, or it is over: \<^verbatim>\<open>onComplete\<close> was called with the
  given arguments (the parent then leaves the quiz view, and the unmount clears the timer), or
  a handler threw.
\<close>

datatype session = Mounted ActiveQuizState | Unmounted completion | Crashed js_error

text \<open>
  Mounting renders \<^verbatim>\<open>currentQuestion.question\<close> for \<^verbatim>\<open>quizData[0]\<close>, which throws on an
  empty question list.
\<close>

definition mount :: "ActiveQuizProps \<Rightarrow> session" where
  "mount p = (if quizData p = [] then Crashed TypeError else Mounted initialQuiz)"

text \<open>The callback given to \<^verbatim>\<open>window.setTimeout\<close>, run 800 ms after \<^verbatim>\<open>handleNext\<close>.\<close>

definition timerCallback :: "ActiveQuizProps \<Rightarrow> scheduled \<Rightarrow> ActiveQuizState \<Rightarrow> session" where
  "timerCallback p t q =
     (if isLastQuestion t
      then Unmounted (Some (category p), Some (finalScore t), Some (length (quizData p)))
      else Mounted (q\<lparr>currentQuestionIndex := currentQuestionIndex q + 1,
                      selectedOption := None, showResult := False,
                      score := finalScore t, pendingAdvance := False, timerRef := None\<rparr>))"

text \<open>
  What can happen to a mounted quiz: a click on an option, a click on the submit button,
  the timeout running, a click on "Cancel Quiz", and a render of \<^verbatim>\<open>App\<close>. The component
  functions are declared in the body of \<^verbatim>\<open>App\<close>, so each render of \<^verbatim>\<open>App\<close> gives React a
  new component type: the mounted quiz is unmounted, which clears its timeout, and a fresh
  one is mounted.
\<close>

datatype event = Select string | Next | TimerFires | Cancel | Remount

fun step :: "ActiveQuizProps \<Rightarrow> session \<Rightarrow> event \<Rightarrow> session" where
  "step p (Mounted q) (Select opt) = Mounted (handleAnswerSelect opt q)"
| "step p (Mounted q) Next = (case handleNext p q of Inl e \<Rightarrow> Crashed e | Inr q' \<Rightarrow> Mounted q')"
| "step p (Mounted q) TimerFires =
     (case timerRef q of None \<Rightarrow> Mounted q | Some t \<Rightarrow> timerCallback p t q)"
| "step p (Mounted q) Cancel = Unmounted (None, None, None)"
| "step p (Mounted q) Remount = mount p"
| "step p (Unmounted c) e = Unmounted c"
| "step p (Crashed x) e = Crashed x"

definition run :: "ActiveQuizProps \<Rightarrow> session \<Rightarrow> event list \<Rightarrow> session" where
  "run p s es = foldl (step p) s es"

subsection \<open>Numbers\<close>

text \<open>
  \<^verbatim>\<open>score / total >= PASSING_SCORE_PERCENTAGE\<close> is a comparison of IEEE 754 doubles, and
  \<^verbatim>\<open>0.7\<close> is not a double. The operands are counts (a score and an array length), which a
  double holds exactly below \<open>2\<^sup>5\<^sup>3\<close>; the quotient of two such counts is a normal
  double, so neither overflow nor subnormal numbers arise. A finite double is the rational
  number it denotes.

  \<open>binade a b\<close> is the exponent \<open>e\<close> with \<open>2\<^sup>e \<le> a / b < 2\<^sup>e\<^sup>+\<^sup>1\<close>, and
  \<open>to_double a b\<close> rounds \<open>a / b\<close> to the nearest multiple of \<open>2\<^sup>e\<^sup>-\<^sup>5\<^sup>2\<close>, a tie going to
  the even multiple: the double that the division returns, and the double that the
  literal \<^verbatim>\<open>0.7\<close> denotes for \<open>a = 7\<close>, \<open>b = 10\<close>.
\<close>

datatype js_number = NaN | Infinity | Finite rat

definition roundTiesToEven :: "rat \<Rightarrow> int" where
  "roundTiesToEven x =
     (let f = \<lfloor>x\<rfloor>; r = x - of_int f
      in if r < 1 / 2 then f else if 1 / 2 < r then f + 1 else if even f then f else f + 1)"

definition binade :: "nat \<Rightarrow> nat \<Rightarrow> int" where
  "binade a b =
     (let d = int (floorlog 2 a) - int (floorlog 2 b)
      in if 2 powi d * of_nat b \<le> (of_nat a :: rat) then d else d - 1)"

definition to_double :: "nat \<Rightarrow> nat \<Rightarrow> rat" where
  "to_double a b =
     (let u = 2 powi (binade a b - 52)
      in of_int (roundTiesToEven (of_nat a / of_nat b / u)) * u)"

definition js_div :: "nat \<Rightarrow> nat \<Rightarrow> js_number" where
  "js_div a b =
     (if b = 0 then (if a = 0 then NaN else Infinity)
      else if a = 0 then Finite 0
      else Finite (to_double a b))"

fun js_ge :: "js_number \<Rightarrow> js_number \<Rightarrow> bool" where
  "js_ge (Finite x) (Finite y) = (y \<le> x)"
| "js_ge Infinity (Finite y) = True"
| "js_ge Infinity Infinity = True"
| "js_ge x y = False"

definition PASSING_SCORE_PERCENTAGE :: js_number where
  "PASSING_SCORE_PERCENTAGE = Finite (to_double 7 10)"

text \<open>The local constant \<^verbatim>\<open>passed\<close> of \<^verbatim>\<open>handleQuizComplete\<close>.\<close>

definition passed :: "nat \<Rightarrow> nat \<Rightarrow> bool" where
  "passed sc tot = js_ge (js_div sc tot) PASSING_SCORE_PERCENTAGE"

subsection \<open>Application state\<close>

datatype view = Feed | Post | Quiz

datatype question_status = Open | Closed

record QuestionDoc =
  id_q :: string
  title :: string
  body :: string
  authorId :: string
  category_q :: string
  status :: question_status
  createdAt :: "nat option"
  createdAtMs :: "nat option"

text \<open>
  A verification document as the store holds it (\<^verbatim>\<open>Omit<VerificationDoc, 'id'>\<close>), and with
  its id. The data is cast from what the store returns, so \<^verbatim>\<open>verifiedCategories\<close> may be
  missing, as the code allows for with \<^verbatim>\<open>|| []\<close>.
\<close>

record VerificationData =
  displayName_v :: "string option"
  verifiedCategories :: "string list option"
  lastUpdated :: "nat option"

record VerificationDoc = VerificationData +
  id_v :: string

record FirebaseConfig =
  apiKey :: string
  authDomain :: string
  projectId :: string
  storageBucket :: string
  messagingSenderId :: string
  appId :: string

text \<open>
  The state hooks of \<^verbatim>\<open>App\<close>, followed by what lies outside the component: the first
  argument of each \<^verbatim>\<open>console.error\<close> call so far, and the two collections of the store.
\<close>

record Crosspoint =
  db :: bool
  userId :: "string option"
  displayName :: "string option"
  isLoading :: bool
  appState :: view
  activeQuizCategory :: "string option"
  questions :: "QuestionDoc list"
  userVerifications :: "VerificationDoc list"
  error :: "string option"
  console :: "string list"
  expert_verifications :: "string \<rightharpoonup> VerificationData"
  questions_collection :: "QuestionDoc list"

definition initialApp :: "(string \<rightharpoonup> VerificationData) \<Rightarrow> QuestionDoc list \<Rightarrow> Crosspoint" where
  "initialApp vs qs =
     \<lparr>db = False, userId = None, displayName = None, isLoading = True, appState = Feed,
      activeQuizCategory = None, questions = [], userVerifications = [], error = None,
      console = [], expert_verifications = vs, questions_collection = qs\<rparr>"

text \<open>The result of an awaited call to the store or to the identity service.\<close>

datatype 'a outcome = Resolved 'a | Rejected

subsection \<open>Start-up effect and identity\<close>

fun join_str :: "string \<Rightarrow> string list \<Rightarrow> string" where
  "join_str sep [] = []"
| "join_str sep [x] = x"
| "join_str sep (x # y # ys) = x @ sep @ join_str sep (y # ys)"

text \<open>The arrow of the messages is written as its three UTF-8 bytes.\<close>

definition arrow :: string where
  "arrow = [CHR 0xE2, CHR 0x86, CHR 0x92]"

definition authMessage :: "string option \<Rightarrow> string" where
  "authMessage c =
     (let code = (case c of None \<Rightarrow> [] | Some x \<Rightarrow> x)
      in if code = ''auth/operation-not-allowed''
         then ''Auth error: Anonymous sign-in is disabled. Enable it in Firebase Console '' @ arrow
              @ '' Authentication '' @ arrow @ '' Sign-in Method.''
         else if code = ''auth/unauthorized-domain''
         then ''Auth error: Unauthorized domain. Add your dev URL in Firebase Console '' @ arrow
              @ '' Authentication '' @ arrow @ '' Settings '' @ arrow @ '' Authorized domains.''
         else if code = ''auth/operation-not-supported-in-this-environment''
         then ''Auth error: Storage blocked in this environment. Try another browser or disable private mode.''
         else if code = ''auth/invalid-custom-token''
         then ''Auth error: Invalid custom token. Remove VITE_INITIAL_AUTH_TOKEN to test anonymous, or issue a token for this project.''
         else ''Auth error: '' @ code)"

text \<open>
  What the start-up effect meets after the configuration check: an exception outside the
  sign-in block, thrown before \<^verbatim>\<open>setDb\<close> (its text is \<^verbatim>\<open>e?.code || e?.message || String(e)\<close>);
  a rejected sign-in with its \<^verbatim>\<open>code\<close>; or a sign-in that resolves, after which the
  identity listener is attached.
\<close>

datatype startup = InitThrows string | SignInRejected "string option" | Observing

definition missingKeys :: "FirebaseConfig \<Rightarrow> string list" where
  "missingKeys c =
     map fst (filter (\<lambda>(k, v). v = [])
       [(''apiKey'', apiKey c), (''projectId'', projectId c), (''appId'', appId c)])"

definition startupEffect :: "FirebaseConfig \<Rightarrow> startup \<Rightarrow> Crosspoint \<Rightarrow> Crosspoint" where
  "startupEffect c r s =
     (if missingKeys c \<noteq> []
      then s\<lparr>error := Some (''Firebase config missing: '' @ join_str '', '' (missingKeys c)
                            @ ''. Check your .env and restart the dev server.''),
             isLoading := False\<rparr>
      else case r of
             InitThrows m \<Rightarrow>
               s\<lparr>console := console s @ [''[Firebase init] fatal''],
                 error := Some (''Firebase init error: '' @ m), isLoading := False\<rparr>
           | SignInRejected code \<Rightarrow>
               s\<lparr>db := True, console := console s @ [''[Auth] sign-in error''],
                 error := Some (authMessage code), isLoading := False\<rparr>
           | Observing \<Rightarrow> s\<lparr>db := True\<rparr>)"

text \<open>The listener of \<^verbatim>\<open>onAuthStateChanged\<close>; a user is a \<^verbatim>\<open>uid\<close> and a display name.\<close>

definition onAuthStateChanged :: "(string \<times> string option) option \<Rightarrow> Crosspoint \<Rightarrow> Crosspoint" where
  "onAuthStateChanged user s =
     (case user of
        Some (uid, dn) \<Rightarrow>
          s\<lparr>userId := Some uid,
            displayName := Some (case dn of
                                   None \<Rightarrow> ''User-'' @ take 8 uid
                                 | Some n \<Rightarrow> if n = [] then ''User-'' @ take 8 uid else n),
            isLoading := False\<rparr>
      | None \<Rightarrow> s\<lparr>userId := None, displayName := None, isLoading := False\<rparr>)"

subsection \<open>Snapshot listeners\<close>

text \<open>
  The second effect attaches both listeners only when \<^verbatim>\<open>db\<close> and \<^verbatim>\<open>userId\<close> are set
  (\<^verbatim>\<open>if (!db || !userId) return\<close>); the handlers close over that \<^verbatim>\<open>userId\<close>.
\<close>

definition listening :: "Crosspoint \<Rightarrow> bool" where
  "listening s = (db s \<and> truthy (userId s))"

definition onQuestionsSnapshot :: "QuestionDoc list \<Rightarrow> Crosspoint \<Rightarrow> Crosspoint" where
  "onQuestionsSnapshot list s = s\<lparr>questions := list\<rparr>"

definition onQuestionsError :: "Crosspoint \<Rightarrow> Crosspoint" where
  "onQuestionsError s =
     s\<lparr>console := console s @ [''Error fetching questions:''],
       error := Some ''Failed to load questions from database.''\<rparr>"

text \<open>
  The snapshot of the user's verification document: \<open>None\<close> when \<^verbatim>\<open>snap.exists()\<close> is
  false. \<^verbatim>\<open>snap.id\<close> is the id of the document reference, which was built from \<^verbatim>\<open>userId\<close>.
\<close>

definition onVerificationSnapshot :: "string \<Rightarrow> VerificationData option \<Rightarrow> Crosspoint \<Rightarrow> Crosspoint" where
  "onVerificationSnapshot uid snap s =
     (case snap of
        Some d \<Rightarrow>
          s\<lparr>userVerifications :=
              [\<lparr>displayName_v = displayName_v d, verifiedCategories = verifiedCategories d,
                lastUpdated = lastUpdated d, id_v = uid\<rparr>]\<rparr>
      | None \<Rightarrow>
          s\<lparr>userVerifications :=
              [\<lparr>displayName_v = None, verifiedCategories = Some [], lastUpdated = None,
                id_v = uid\<rparr>]\<rparr>)"

definition onVerificationError :: "Crosspoint \<Rightarrow> Crosspoint" where
  "onVerificationError s = s\<lparr>console := console s @ [''Error fetching verifications:'']\<rparr>"

text \<open>The store delivering the current state of the user's document to an attached listener.\<close>

definition deliverVerification :: "Crosspoint \<Rightarrow> Crosspoint" where
  "deliverVerification s =
     (case userId s of
        None \<Rightarrow> s
      | Some uid \<Rightarrow>
          if db s \<and> uid \<noteq> [] then onVerificationSnapshot uid (expert_verifications s uid) s
          else s)"

text \<open>
  \<^verbatim>\<open>currentUserVerifications\<close>: the first entry whose id is \<^verbatim>\<open>userId\<close>, else a fresh record
  with the id \<^verbatim>\<open>userId || 'unknown'\<close>.
\<close>

definition currentUserVerifications :: "Crosspoint \<Rightarrow> VerificationDoc" where
  "currentUserVerifications s =
     (case find (\<lambda>v. Some (id_v v) = userId s) (userVerifications s) of
        Some v \<Rightarrow> v
      | None \<Rightarrow>
          \<lparr>displayName_v = None, verifiedCategories = Some [], lastUpdated = None,
           id_v = (case userId s of
                     None \<Rightarrow> ''unknown''
                   | Some u \<Rightarrow> if u = [] then ''unknown'' else u)\<rparr>)"

text \<open>
  \<^verbatim>\<open>currentUserVerifications.verifiedCategories?.includes(category)\<close>, the test behind the
  VERIFIED mark and the Answer button.
\<close>

definition isVerified :: "Crosspoint \<Rightarrow> string \<Rightarrow> bool" where
  "isVerified s cat =
     (case verifiedCategories (currentUserVerifications s) of
        None \<Rightarrow> False
      | Some xs \<Rightarrow> cat \<in> set xs)"

subsection \<open>Verification merge\<close>

text \<open>
  \<^verbatim>\<open>Array.from(new Set(xs))\<close>: a \<^verbatim>\<open>Set\<close> keeps its elements in insertion order, and
  adding an element it already has changes nothing.
\<close>

fun set_add_all :: "'a list \<Rightarrow> 'a list \<Rightarrow> 'a list" where
  "set_add_all acc [] = acc"
| "set_add_all acc (x # xs) = set_add_all (if x \<in> set acc then acc else acc @ [x]) xs"

definition or_empty :: "'a list option \<Rightarrow> 'a list" where
  "or_empty v = (case v of None \<Rightarrow> [] | Some xs \<Rightarrow> xs)"

definition newCategories :: "string list option \<Rightarrow> string \<Rightarrow> string list" where
  "newCategories vc cat = set_add_all [] (or_empty vc @ [cat])"

text \<open>
  \<^verbatim>\<open>handleQuizComplete\<close>. The argument \<open>w\<close> is what the awaited \<^verbatim>\<open>setDoc\<close> does: it resolves,
  the store having assigned the server timestamp, or it rejects. With \<^verbatim>\<open>{ merge: true }\<close>
  the three written fields replace those of the stored document; they are all the fields a
  \<^typ>\<open>VerificationData\<close> has.
\<close>

definition handleQuizComplete ::
  "string \<Rightarrow> nat \<Rightarrow> nat \<Rightarrow> nat outcome \<Rightarrow> Crosspoint \<Rightarrow> Crosspoint" where
  "handleQuizComplete cat sc tot w s =
     (case userId s of
        None \<Rightarrow> s
      | Some uid \<Rightarrow>
          if \<not> db s \<or> uid = [] then s
          else if passed sc tot
          then (case w of
                  Resolved ts \<Rightarrow>
                    s\<lparr>expert_verifications :=
                        (expert_verifications s)(uid \<mapsto>
                          \<lparr>displayName_v = displayName s,
                           verifiedCategories =
                             Some (newCategories (verifiedCategories (currentUserVerifications s)) cat),
                           lastUpdated = Some ts\<rparr>),
                      activeQuizCategory := None\<rparr>
                | Rejected \<Rightarrow>
                    s\<lparr>console := console s @ [''Error updating verification status:''],
                      error := Some (''Failed to verify expertise in '' @ cat @ ''.''),
                      activeQuizCategory := None\<rparr>)
          else s\<lparr>activeQuizCategory := None\<rparr>)"

text \<open>
  The \<^verbatim>\<open>onComplete\<close> that \<^verbatim>\<open>QuizCategorySelectionView\<close> hands to \<^verbatim>\<open>ActiveQuiz\<close>:
  \<^verbatim>\<open>if (category && finalScore != null && total != null)\<close>.
\<close>

definition onComplete :: "completion \<Rightarrow> nat outcome \<Rightarrow> Crosspoint \<Rightarrow> Crosspoint" where
  "onComplete c w s =
     (let s1 = s\<lparr>appState := Feed\<rparr>
      in case c of (cat, fs, tot) \<Rightarrow>
           (case cat of
              None \<Rightarrow> s1
            | Some ct \<Rightarrow>
                (case fs of
                   None \<Rightarrow> s1
                 | Some f \<Rightarrow>
                     (case tot of
                        None \<Rightarrow> s1
                      | Some t \<Rightarrow> if ct = [] then s1 else handleQuizComplete ct f t w s1))))"

text \<open>The parent's reaction to a session: nothing until \<^verbatim>\<open>onComplete\<close> is called.\<close>

definition finish :: "session \<Rightarrow> nat outcome \<Rightarrow> Crosspoint \<Rightarrow> Crosspoint" where
  "finish ses w s = (case ses of Unmounted c \<Rightarrow> onComplete c w s | _ \<Rightarrow> s)"

subsection \<open>Posting a question\<close>

text \<open>
  \<^verbatim>\<open>handlePostQuestion\<close>; \<open>now\<close> is \<^verbatim>\<open>Date.now()\<close>, and a resolved \<^verbatim>\<open>addDoc\<close> carries the id
  and the server timestamp that the store assigned.
\<close>

definition handlePostQuestion ::
  "string \<Rightarrow> string \<Rightarrow> string \<Rightarrow> nat \<Rightarrow> (string \<times> nat) outcome \<Rightarrow> Crosspoint \<Rightarrow> Crosspoint" where
  "handlePostQuestion ti bo cat now w s =
     (case userId s of
        None \<Rightarrow> s
      | Some uid \<Rightarrow>
          if \<not> db s \<or> uid = [] then s
          else case w of
                 Resolved (newId, ts) \<Rightarrow>
                   s\<lparr>questions_collection :=
                       questions_collection s @
                         [\<lparr>id_q = newId, title = ti, body = bo, authorId = uid, category_q = cat,
                           status = Open, createdAt = Some ts, createdAtMs = Some now\<rparr>],
                     appState := Feed\<rparr>
               | Rejected \<Rightarrow>
                   s\<lparr>console := console s @ [''Error posting question:''],
                     error := Some ''Could not post question. Check network connection or database permissions.''\<rparr>)"

subsection \<open>Navigation and render\<close>

text \<open>The "Take Quiz" button of the header and the "Start Quiz" button of a category.\<close>

definition takeQuiz :: "Crosspoint \<Rightarrow> Crosspoint" where
  "takeQuiz s = s\<lparr>appState := Quiz, activeQuizCategory := None\<rparr>"

definition startQuiz :: "string \<Rightarrow> Crosspoint \<Rightarrow> Crosspoint" where
  "startQuiz cat s = s\<lparr>activeQuizCategory := Some cat\<rparr>"

text \<open>
  What \<^verbatim>\<open>App\<close> returns: the loading screen, the "Application Error" screen in place of
  everything else, or the header with the view that \<^verbatim>\<open>appState\<close> selects.
\<close>

datatype screen =
    LoadingScreen
  | ApplicationError string
  | QuestionFeedView
  | PostQuestionView
  | QuizCategorySelection
  | QuizNotFound string
  | ActiveQuizView ActiveQuizProps

definition QuizCategorySelectionView :: "Crosspoint \<Rightarrow> screen" where
  "QuizCategorySelectionView s =
     (case activeQuizCategory s of
        None \<Rightarrow> QuizCategorySelection
      | Some c \<Rightarrow>
          if c = [] then QuizCategorySelection
          else case map_of QUIZ_DATA c of
                 None \<Rightarrow> QuizNotFound c
               | Some qd \<Rightarrow> ActiveQuizView \<lparr>category = c, quizData = qd\<rparr>)"

definition renderContent :: "Crosspoint \<Rightarrow> screen" where
  "renderContent s =
     (case appState s of
        Post \<Rightarrow> PostQuestionView
      | Quiz \<Rightarrow> QuizCategorySelectionView s
      | Feed \<Rightarrow> QuestionFeedView)"

definition render :: "Crosspoint \<Rightarrow> screen" where
  "render s =
     (if isLoading s then LoadingScreen
      else case error s of
             None \<Rightarrow> renderContent s
           | Some e \<Rightarrow> if e = [] then renderContent s else ApplicationError e)"

subsection \<open>Example states\<close>

definition exampleConfig :: FirebaseConfig where
  "exampleConfig =
     \<lparr>apiKey = ''key'', authDomain = [], projectId = ''crosspoint'', storageBucket = [],
      messagingSenderId = [], appId = ''app''\<rparr>"

text \<open>An empty store; the start-up has run, and the identity listener has reported a user.\<close>

definition readyApp :: Crosspoint where
  "readyApp =
     onAuthStateChanged (Some (''u1234567890'', None))
       (startupEffect exampleConfig Observing (initialApp Map.empty []))"

text \<open>The same, but the identity listener has reported that nobody is signed in.\<close>

definition signedOutApp :: Crosspoint where
  "signedOutApp =
     onAuthStateChanged None (startupEffect exampleConfig Observing (initialApp Map.empty []))"


definition physicsProps :: ActiveQuizProps where
  "physicsProps =
     \<lparr>category = ''Physics'',
      quizData = (case map_of QUIZ_DATA ''Physics'' of None \<Rightarrow> [] | Some qd \<Rightarrow> qd)\<rparr>"

subsection \<open>Session invariant\<close>

text \<open>
  What every session started by \<open>mount\<close> keeps true: the score counts answers to earlier
  questions only, a scheduled callback carries at most one point more, and it is marked as
  the last one only on the last question.
\<close>

fun session_inv :: "ActiveQuizProps \<Rightarrow> session \<Rightarrow> bool" where
  "session_inv p (Mounted q) =
     (score q \<le> currentQuestionIndex q \<and>
      (case timerRef q of
         None \<Rightarrow> True
       | Some t \<Rightarrow> finalScore t \<le> currentQuestionIndex q + 1 \<and>
                   (if isLastQuestion t then currentQuestionIndex q + 1 = length (quizData p)
                    else True)))"
| "session_inv p (Unmounted (c, fs, tot)) =
     (case fs of
        None \<Rightarrow> True
      | Some f \<Rightarrow> f \<le> length (quizData p) \<and> tot = Some (length (quizData p)) \<and>
                  c = Some (category p))"
| "session_inv p (Crashed e) = True"

text \<open>The three Physics questions answered right, wrong, right.\<close>

definition physicsAttempt :: "event list" where
  "physicsAttempt =
     [Select ''Principle of Conservation of Momentum'', Next, TimerFires,
      Select ''Volt'', Next, TimerFires,
      Select ''Refraction'', Next, TimerFires]"

section \<open>Properties\<close>

subsection \<open>Submitting an answer\<close>

text \<open>
  C1. At a question index \<open>i\<close> inside the question list, \<^verbatim>\<open>handleNext\<close> does nothing when no
  option is selected or the result is already shown. When it does submit (the selection is a
  non-empty string, nothing is shown or pending), the selected option is compared with the
  question's answer by equality of strings, \<open>scoreAfter\<close> is the score plus one if they are
  equal and the score otherwise, and when the timeout runs the session either ends with
  \<^verbatim>\<open>onComplete(category, scoreAfter, N)\<close>, if \<open>i = N - 1\<close>, or moves to question \<open>i + 1\<close> with
  the score \<open>scoreAfter\<close>, no selection and the result hidden.
  (A selected empty string counts as no selection for \<^verbatim>\<open>!selectedOption\<close>, so a selection is
  necessary for a submit but the empty one is not sufficient.)
\<close>

theorem handleNext_submit:
  assumes cq: "index_opt (quizData p) (currentQuestionIndex q) = Some cq"
  shows "(selectedOption q = None \<or> showResult q \<longrightarrow> handleNext p q = Inr q) \<and>
         (truthy (selectedOption q) \<and> \<not> showResult q \<and> \<not> pendingAdvance q \<longrightarrow>
            step p (step p (Mounted q) Next) TimerFires =
              (let scoreAfter = score q + (if selectedOption q = Some (answer cq) then 1 else 0)
               in if currentQuestionIndex q + 1 = length (quizData p)
                  then Unmounted (Some (category p), Some scoreAfter, Some (length (quizData p)))
                  else Mounted (q\<lparr>currentQuestionIndex := currentQuestionIndex q + 1,
                                  score := scoreAfter, selectedOption := None,
                                  showResult := False, pendingAdvance := False,
                                  timerRef := None\<rparr>)))"
proof (intro conjI impI)
  assume "selectedOption q = None \<or> showResult q"
  then show "handleNext p q = Inr q"
    by (auto simp: handleNext_def truthy_def)
next
  assume g: "truthy (selectedOption q) \<and> \<not> showResult q \<and> \<not> pendingAdvance q"
  have l: "(int (currentQuestionIndex q) = int (length (quizData p)) - 1)
             = (currentQuestionIndex q + 1 = length (quizData p))"
    by auto
  show "step p (step p (Mounted q) Next) TimerFires =
              (let scoreAfter = score q + (if selectedOption q = Some (answer cq) then 1 else 0)
               in if currentQuestionIndex q + 1 = length (quizData p)
                  then Unmounted (Some (category p), Some scoreAfter, Some (length (quizData p)))
                  else Mounted (q\<lparr>currentQuestionIndex := currentQuestionIndex q + 1,
                                  score := scoreAfter, selectedOption := None,
                                  showResult := False, pendingAdvance := False,
                                  timerRef := None\<rparr>))"
    using g cq by (simp add: handleNext_def timerCallback_def Let_def l)
qed

text \<open>
  The second Physics question answered "ampere": the answer is "Ampere", the comparison is
  case-sensitive, the score stays 1 and the quiz moves on to the third question.
\<close>

theorem handleNext_submit_witness:
  "index_opt (quizData physicsProps)
      (currentQuestionIndex (initialQuiz\<lparr>currentQuestionIndex := 1, score := 1,
                                         selectedOption := Some ''ampere''\<rparr>))
     = Some \<lparr>question = ''What is the SI unit of electric current?'',
             options = [''Volt'', ''Ohm'', ''Ampere'', ''Watt''], answer = ''Ampere''\<rparr>
   \<and> step physicsProps
        (step physicsProps
           (Mounted (initialQuiz\<lparr>currentQuestionIndex := 1, score := 1,
                                 selectedOption := Some ''ampere''\<rparr>)) Next) TimerFires
        = Mounted (initialQuiz\<lparr>currentQuestionIndex := 2, score := 1\<rparr>)"
proof -
  let ?q = "initialQuiz\<lparr>currentQuestionIndex := 1, score := 1, selectedOption := Some ''ampere''\<rparr>"
  let ?cq = "\<lparr>question = ''What is the SI unit of electric current?'',
              options = [''Volt'', ''Ohm'', ''Ampere'', ''Watt''], answer = ''Ampere''\<rparr>"
  have i: "index_opt (quizData physicsProps) (currentQuestionIndex ?q) = Some ?cq"
    by (simp add: index_opt_def physicsProps_def QUIZ_DATA_def initialQuiz_def)
  have n: "length (quizData physicsProps) = 3"
    by (simp add: physicsProps_def QUIZ_DATA_def)
  have g: "truthy (selectedOption ?q) \<and> \<not> showResult ?q \<and> \<not> pendingAdvance ?q"
    by (simp add: truthy_def initialQuiz_def)
  from handleNext_submit [OF i] g
  have "step physicsProps (step physicsProps (Mounted ?q) Next) TimerFires =
          Mounted (initialQuiz\<lparr>currentQuestionIndex := 2, score := 1\<rparr>)"
    by (simp add: n initialQuiz_def)
  with i show ?thesis by blast
qed

subsection \<open>The passing threshold\<close>

text \<open>The double that \<^verbatim>\<open>0.7\<close> denotes lies a little below seven tenths.\<close>

lemma threshold_value: "to_double 7 10 = 6305039478318694 / 2 ^ 53"
  by code_simp

text \<open>The bit length of a positive number brackets it between two powers of two.\<close>

lemma nat_bracket:
  assumes "0 < a"
  shows "(2::rat) powi (int (floorlog 2 a) - 1) \<le> of_nat a"
    and "(of_nat a :: rat) < 2 powi int (floorlog 2 a)"
proof -
  have pos: "0 < floorlog 2 a"
    using assms by (simp add: floorlog_def)
  have b: "2 ^ (floorlog 2 a - 1) \<le> a \<and> a < 2 ^ floorlog 2 a"
    using floorlog_bounds[where b = 2 and x = a] assms by simp
  have "(2::rat) powi (int (floorlog 2 a) - 1) = 2 powi int (floorlog 2 a - 1)"
    by (rule arg_cong[where f = "\<lambda>k. 2 powi k"]) (use pos in simp)
  also have "\<dots> = of_nat (2 ^ (floorlog 2 a - 1))"
    by simp
  also have "\<dots> \<le> of_nat a"
    using b of_nat_le_iff by blast
  finally show "(2::rat) powi (int (floorlog 2 a) - 1) \<le> of_nat a" .
  have "(of_nat a :: rat) < of_nat (2 ^ floorlog 2 a)"
    using b of_nat_less_iff by blast
  then show "(of_nat a :: rat) < 2 powi int (floorlog 2 a)"
    by simp
qed

lemma binade_bounds:
  assumes "0 < a" "0 < b"
  shows "2 powi (binade a b) \<le> (of_nat a / of_nat b :: rat)"
    and "(of_nat a / of_nat b :: rat) < 2 powi (binade a b + 1)"
proof -
  define d where "d = int (floorlog 2 a) - int (floorlog 2 b)"
  define A :: rat where "A = of_nat a"
  define B :: rat where "B = of_nat b"
  have pos: "0 < A" "0 < B"
    using assms by (simp_all add: A_def B_def)
  have ra: "2 powi (int (floorlog 2 a) - 1) \<le> A" "A < 2 powi int (floorlog 2 a)"
    using nat_bracket[OF assms(1)] by (simp_all add: A_def)
  have rb: "2 powi (int (floorlog 2 b) - 1) \<le> B" "B < 2 powi int (floorlog 2 b)"
    using nat_bracket[OF assms(2)] by (simp_all add: B_def)
  have lo: "2 powi (d - 1) * B < A"
  proof -
    have "2 powi (d - 1) * B < 2 powi (d - 1) * 2 powi int (floorlog 2 b)"
      using rb(2) by (simp add: mult_strict_left_mono)
    also have "\<dots> = 2 powi ((d - 1) + int (floorlog 2 b))"
      by (rule power_int_add[symmetric]) simp
    also have "\<dots> = 2 powi (int (floorlog 2 a) - 1)"
      by (rule arg_cong[where f = "\<lambda>k. 2 powi k"]) (simp add: d_def)
    also have "\<dots> \<le> A" by (rule ra(1))
    finally show ?thesis .
  qed
  have hi: "A < 2 powi (d + 1) * B"
  proof -
    have "A < 2 powi int (floorlog 2 a)" by (rule ra(2))
    also have "\<dots> = 2 powi ((d + 1) + (int (floorlog 2 b) - 1))"
      by (rule arg_cong[where f = "\<lambda>k. 2 powi k"]) (simp add: d_def)
    also have "\<dots> = 2 powi (d + 1) * 2 powi (int (floorlog 2 b) - 1)"
      by (rule power_int_add) simp
    also have "\<dots> \<le> 2 powi (d + 1) * B"
      using rb(1) by (simp add: mult_left_mono)
    finally show ?thesis .
  qed
  have e: "binade a b = (if 2 powi d * B \<le> A then d else d - 1)"
    by (simp add: binade_def d_def A_def B_def Let_def)
  show "2 powi (binade a b) \<le> (of_nat a / of_nat b :: rat)"
    using lo pos by (auto simp: e A_def[symmetric] B_def[symmetric] pos_le_divide_eq less_imp_le)
  show "(of_nat a / of_nat b :: rat) < 2 powi (binade a b + 1)"
    using hi pos by (auto simp: e A_def[symmetric] B_def[symmetric] pos_divide_less_eq not_le)
qed

text \<open>
  Rounding is monotone at an integer, and reaches an even integer \<open>m\<close> exactly from
  \<open>m - 1/2\<close> on.
\<close>

lemma roundTiesToEven_ge:
  assumes "of_int n \<le> x"
  shows "n \<le> roundTiesToEven x"
proof -
  have "n \<le> \<lfloor>x\<rfloor>" using assms by (simp add: le_floor_iff)
  then show ?thesis by (simp add: roundTiesToEven_def Let_def)
qed

lemma roundTiesToEven_le:
  assumes "x \<le> of_int n"
  shows "roundTiesToEven x \<le> n"
proof (cases "x = of_int n")
  case True
  then show ?thesis by (simp add: roundTiesToEven_def)
next
  case False
  then have "x < of_int n" using assms by simp
  then have "\<lfloor>x\<rfloor> < n" by (simp add: floor_less_iff)
  then show ?thesis by (simp add: roundTiesToEven_def Let_def)
qed

lemma roundTiesToEven_ge_even:
  assumes "even m"
  shows "m \<le> roundTiesToEven x \<longleftrightarrow> of_int m - 1 / 2 \<le> x"
proof (cases "of_int m \<le> x")
  case True
  then show ?thesis using roundTiesToEven_ge[OF True] by simp
next
  case False
  then have lt: "x < of_int m" by simp
  then have fl: "\<lfloor>x\<rfloor> \<le> m - 1" by (simp add: floor_less_iff)
  show ?thesis
  proof (cases "\<lfloor>x\<rfloor> = m - 1")
    case True
    have odd: "odd \<lfloor>x\<rfloor>" using assms True by simp
    have "x - of_int \<lfloor>x\<rfloor> = x - of_int m + 1" using True by simp
    then show ?thesis
      using odd True by (auto simp: roundTiesToEven_def Let_def)
  next
    case False
    then have f2: "\<lfloor>x\<rfloor> \<le> m - 2" using fl by simp
    have "x < of_int \<lfloor>x\<rfloor> + 1" by linarith
    moreover have "(of_int \<lfloor>x\<rfloor> :: rat) \<le> of_int (m - 2)"
      using f2 of_int_le_iff by blast
    ultimately have "x < of_int m - 1" by simp
    moreover have "roundTiesToEven x \<le> \<lfloor>x\<rfloor> + 1"
      by (simp add: roundTiesToEven_def Let_def)
    ultimately show ?thesis using f2 by auto
  qed
qed

lemma to_double_range:
  assumes "0 < a" "0 < b"
  shows "2 powi (binade a b) \<le> to_double a b"
    and "to_double a b \<le> 2 powi (binade a b + 1)"
proof -
  define e where "e = binade a b"
  define u :: rat where "u = 2 powi (e - 52)"
  define q :: rat where "q = of_nat a / of_nat b"
  define x :: rat where "x = q / u"
  have u: "0 < u" by (simp add: u_def)
  have lo: "2 powi e = 2 ^ 52 * u"
  proof -
    have "(2::rat) powi e = 2 powi (52 + (e - 52))"
      by (rule arg_cong[where f = "\<lambda>k. 2 powi k"]) simp
    also have "\<dots> = 2 powi 52 * 2 powi (e - 52)" by (rule power_int_add) simp
    finally show ?thesis by (simp add: u_def)
  qed
  have hi: "2 powi (e + 1) = 2 ^ 53 * u"
  proof -
    have "(2::rat) powi (e + 1) = 2 powi (53 + (e - 52))"
      by (rule arg_cong[where f = "\<lambda>k. 2 powi k"]) simp
    also have "\<dots> = 2 powi 53 * 2 powi (e - 52)" by (rule power_int_add) simp
    finally show ?thesis by (simp add: u_def)
  qed
  have td: "to_double a b = of_int (roundTiesToEven x) * u"
    by (simp add: to_double_def Let_def e_def u_def x_def q_def)
  have "2 ^ 52 * u \<le> q"
    using binade_bounds(1)[OF assms] lo by (simp add: e_def q_def)
  then have "2 ^ 52 \<le> x"
    unfolding x_def by (simp only: pos_le_divide_eq[OF u])
  then have "of_int (2 ^ 52) \<le> x" by simp
  then have "2 ^ 52 \<le> roundTiesToEven x" by (rule roundTiesToEven_ge)
  then have "(of_int (2 ^ 52) :: rat) \<le> of_int (roundTiesToEven x)"
    using of_int_le_iff by blast
  then have "2 ^ 52 * u \<le> of_int (roundTiesToEven x) * u"
    using u by (simp add: mult_right_mono)
  then show "2 powi (binade a b) \<le> to_double a b"
    using lo td by (simp add: e_def)
  have "q \<le> 2 ^ 53 * u"
    using binade_bounds(2)[OF assms] hi by (simp add: e_def q_def)
  then have "x \<le> 2 ^ 53"
    unfolding x_def by (simp only: pos_divide_le_eq[OF u])
  then have "x \<le> of_int (2 ^ 53)" by simp
  then have "roundTiesToEven x \<le> 2 ^ 53" by (rule roundTiesToEven_le)
  then have "(of_int (roundTiesToEven x) :: rat) \<le> of_int (2 ^ 53)"
    using of_int_le_iff by blast
  then have "of_int (roundTiesToEven x) * u \<le> 2 ^ 53 * u"
    using u by (simp add: mult_right_mono)
  then show "to_double a b \<le> 2 powi (binade a b + 1)"
    using hi td by (simp add: e_def)
qed

text \<open>
  The quotient of two counts is at least the threshold double exactly when the exact ratio
  is at least seven tenths, as long as the denominator stays below \<open>2\<^sup>5\<^sup>4 / 18\<close>: a
  ratio below \<open>7/10\<close> is below it by \<open>1 / (10 b)\<close> at least, which is more than the gap
  between \<open>7/10\<close> and the rounding boundary under the threshold.
\<close>

lemma to_double_ge_threshold:
  assumes "0 < a" "0 < b" "18 * b < 2 ^ 54"
  shows "to_double 7 10 \<le> to_double a b \<longleftrightarrow> 7 * b \<le> 10 * a"
proof -
  define q :: rat where "q = of_nat a / of_nat b"
  define e where "e = binade a b"
  have B: "(0::rat) < of_nat b" using assms by simp
  have eb: "2 powi e \<le> q" "q < 2 powi (e + 1)"
    using binade_bounds[OF assms(1,2)] by (simp_all add: q_def e_def)
  have tr: "2 powi e \<le> to_double a b" "to_double a b \<le> 2 powi (e + 1)"
    using to_double_range[OF assms(1,2)] by (simp_all add: e_def)
  have th: "to_double 7 10 = 6305039478318694 / 2 ^ 53" by (rule threshold_value)
  have p54: "(2::nat) ^ 54 = 18014398509481984" by simp
  consider (big) "0 \<le> e" | (small) "e \<le> - 2" | (mid) "e = - 1" by linarith
  then show ?thesis
  proof cases
    case big
    then have "(1::rat) \<le> 2 powi e" by simp
    then have "1 \<le> to_double a b" "1 \<le> q" using tr(1) eb(1) by simp_all
    then have "to_double 7 10 \<le> to_double a b" "b \<le> a"
      using B by (simp_all add: th q_def pos_le_divide_eq)
    then show ?thesis by simp
  next
    case small
    then have "(2::rat) powi (e + 1) \<le> 2 powi (- 1)"
      by (intro power_int_increasing) simp_all
    then have h: "2 powi (e + 1) \<le> (1 / 2 :: rat)" by (simp add: power_int_minus_divide)
    have "to_double a b \<le> 1 / 2" "q < 1 / 2" using tr(2) eb(2) h by simp_all
    then have "\<not> to_double 7 10 \<le> to_double a b" "2 * a < b"
      using B by (simp_all add: th q_def pos_divide_less_eq) 
    then show ?thesis by simp
  next
    case mid
    define x :: rat where "x = q * 2 ^ 53"
    have u: "(2::rat) powi (e - 52) = 1 / 2 ^ 53"
      using mid by (simp add: power_int_minus_divide)
    have td: "to_double a b = of_int (roundTiesToEven x) / 2 ^ 53"
      by (simp add: to_double_def Let_def e_def[symmetric] u x_def q_def)
    have "to_double 7 10 \<le> to_double a b \<longleftrightarrow> (of_int 6305039478318694 :: rat) \<le> of_int (roundTiesToEven x)"
      by (simp add: th td divide_le_cancel)
    also have "\<dots> \<longleftrightarrow> 6305039478318694 \<le> roundTiesToEven x"
      by (rule of_int_le_iff)
    also have "\<dots> \<longleftrightarrow> of_int 6305039478318694 - 1 / 2 \<le> x"
      by (rule roundTiesToEven_ge_even) simp
    also have "\<dots> \<longleftrightarrow> (12610078956637387 :: rat) * of_nat b \<le> 2 ^ 54 * of_nat a"
      using B by (simp add: x_def q_def field_simps)
    also have "\<dots> \<longleftrightarrow> (of_nat (12610078956637387 * b) :: rat) \<le> of_nat (2 ^ 54 * a)"
      by simp
    also have "\<dots> \<longleftrightarrow> 12610078956637387 * b \<le> 2 ^ 54 * a"
      by (rule of_nat_le_iff)
    also have "\<dots> \<longleftrightarrow> 7 * b \<le> 10 * a"
      using assms(3) unfolding p54 by arith
    finally show ?thesis .
  qed
qed

lemma passed_iff:
  assumes "0 < T" "T < 2 ^ 32"
  shows "passed fs T \<longleftrightarrow> 7 * T \<le> 10 * fs"
proof (cases "fs = 0")
  case True
  then show ?thesis
    using assms(1) by (simp add: passed_def js_div_def PASSING_SCORE_PERCENTAGE_def threshold_value)
next
  case False
  have "18 * T < 18 * (2::nat) ^ 32" using assms(2) by simp
  also have "\<dots> < 2 ^ 54" by simp
  finally have "18 * T < 2 ^ 54" .
  with False assms(1) to_double_ge_threshold[of fs T] show ?thesis
    by (simp add: passed_def js_div_def PASSING_SCORE_PERCENTAGE_def)
qed

text \<open>
  C2. For a total \<open>T > 0\<close> that is an array length (below \<open>2\<^sup>3\<^sup>2\<close>), \<^verbatim>\<open>passed\<close>, computed
  with the doubles of the code, is true exactly when \<open>finalScore / T \<ge> 7/10\<close> in exact
  arithmetic; two of three is not a pass, three of three is.
\<close>

theorem passed_iff_ratio:
  assumes "0 < T" "T < 2 ^ 32"
  shows "(passed fs T \<longleftrightarrow> (7::rat) / 10 \<le> of_nat fs / of_nat T) \<and> \<not> passed 2 3 \<and> passed 3 3"
proof -
  have "(7::rat) / 10 \<le> of_nat fs / of_nat T \<longleftrightarrow> (7::rat) * of_nat T \<le> 10 * of_nat fs"
    using assms(1) by (simp add: field_simps)
  also have "\<dots> \<longleftrightarrow> (of_nat (7 * T) :: rat) \<le> of_nat (10 * fs)" by simp
  also have "\<dots> \<longleftrightarrow> 7 * T \<le> 10 * fs" by (rule of_nat_le_iff)
  finally have r: "(7::rat) / 10 \<le> of_nat fs / of_nat T \<longleftrightarrow> 7 * T \<le> 10 * fs" .
  have "\<not> passed 2 3" "passed 3 3"
    using passed_iff[of 3 2] passed_iff[of 3 3] by simp_all
  then show ?thesis using passed_iff[OF assms, of fs] r by simp
qed

text \<open>Seven of ten is a pass (the boundary), sixty-nine of a hundred is not.\<close>

theorem passed_iff_ratio_witness:
  "(0::nat) < 10 \<and> (10::nat) < 2 ^ 32 \<and> passed 7 10 \<and> (7::rat) / 10 \<le> of_nat 7 / of_nat 10
   \<and> \<not> passed 69 100 \<and> \<not> passed 2 3 \<and> passed 3 3"
proof -
  have a: "(0::nat) < 10" "(0::nat) < 100" by simp_all
  have b: "(10::nat) < 2 ^ 32" "(100::nat) < 2 ^ 32" by simp_all
  show ?thesis
    using passed_iff_ratio[OF a(1) b(1), of 7] passed_iff_ratio[OF a(2) b(2), of 69] by simp
qed

subsection \<open>The example states\<close>

lemma readyApp_simps:
  "db readyApp" "userId readyApp = Some ''u1234567890''" "displayName readyApp = Some ''User-u1234567''"
  "isLoading readyApp = False" "appState readyApp = Feed" "activeQuizCategory readyApp = None"
  "userVerifications readyApp = []" "error readyApp = None" "console readyApp = []"
  "expert_verifications readyApp = Map.empty" "questions_collection readyApp = []"
  by (simp_all add: readyApp_def onAuthStateChanged_def startupEffect_def missingKeys_def
        exampleConfig_def initialApp_def)

lemma readyApp_listening: "listening readyApp"
  by (simp add: listening_def truthy_def readyApp_simps)

lemma passed_3_3: "passed 3 3"
  using passed_iff[of 3 3] by simp

lemma not_passed_2_3: "\<not> passed 2 3"
  using passed_iff[of 3 2] by simp

subsection \<open>The merge of a passed category\<close>






lemma handleQuizComplete_write:
  assumes "listening s" "passed fs tot" "userId s = Some uid"
  shows "handleQuizComplete c fs tot (Resolved ts) s =
           s\<lparr>expert_verifications :=
               (expert_verifications s)(uid \<mapsto>
                 \<lparr>displayName_v = displayName s,
                  verifiedCategories =
                    Some (newCategories (verifiedCategories (currentUserVerifications s)) c),
                  lastUpdated = Some ts\<rparr>),
             activeQuizCategory := None\<rparr>"
  using assms by (simp add: handleQuizComplete_def listening_def truthy_def)

subsection \<open>Score and total of a completed session\<close>

text \<open>Every handler keeps the session invariant, so every run from \<open>mount\<close> does.\<close>

lemma mount_inv: "session_inv p (mount p)"
  by (simp add: mount_def initialQuiz_def)

lemma handleNext_inv:
  assumes "session_inv p (Mounted q)" "handleNext p q = Inr q'"
  shows "session_inv p (Mounted q')"
proof (cases "\<not> truthy (selectedOption q) \<or> showResult q \<or> pendingAdvance q")
  case True
  with assms show ?thesis by (auto simp: handleNext_def split: option.splits)
next
  case False
  with assms(2) obtain cq where
    cq: "index_opt (quizData p) (currentQuestionIndex q) = Some cq"
    by (auto simp: handleNext_def split: option.splits)
  have l: "(int (currentQuestionIndex q) = int (length (quizData p)) - 1)
             = (currentQuestionIndex q + 1 = length (quizData p))"
    by auto
  from False cq assms(2) have
    "q' = q\<lparr>showResult := True, pendingAdvance := True,
            timerRef := Some \<lparr>isLastQuestion = (currentQuestionIndex q + 1 = length (quizData p)),
                              finalScore = score q + (if selectedOption q = Some (answer cq) then 1 else 0)\<rparr>\<rparr>"
    by (simp add: handleNext_def Let_def l)
  with assms(1) show ?thesis by simp
qed

lemma timerCallback_inv:
  assumes "session_inv p (Mounted q)" "timerRef q = Some t"
  shows "session_inv p (timerCallback p t q)"
  using assms by (auto simp: timerCallback_def split: if_splits)

lemma step_inv:
  assumes "session_inv p s"
  shows "session_inv p (step p s e)"
proof (cases s)
  case (Mounted q)
  show ?thesis
  proof (cases e)
    case (Select opt)
    with Mounted assms show ?thesis
      by (auto simp: handleAnswerSelect_def split: option.splits)
  next
    case Next
    with Mounted assms handleNext_inv[of p q] show ?thesis
      by (cases "handleNext p q") simp_all
  next
    case TimerFires
    show ?thesis
    proof (cases "timerRef q")
      case None
      with Mounted TimerFires assms show ?thesis by simp
    next
      case (Some t)
      from assms Mounted have "session_inv p (Mounted q)" by simp
      from timerCallback_inv[OF this Some] Mounted TimerFires Some show ?thesis by simp
    qed
  next
    case Cancel
    with Mounted show ?thesis by simp
  next
    case Remount
    with Mounted mount_inv[of p] show ?thesis by simp
  qed
next
  case (Unmounted c)
  with assms show ?thesis by simp
next
  case (Crashed x)
  then show ?thesis by simp
qed

lemma run_inv: "session_inv p s \<Longrightarrow> session_inv p (run p s es)"
  unfolding run_def by (induction es arbitrary: s) (simp_all add: step_inv)

lemma render_ActiveQuizView:
  assumes "render s = ActiveQuizView p"
  shows "activeQuizCategory s = Some (category p) \<and> map_of QUIZ_DATA (category p) = Some (quizData p)"
  using assms
  by (auto simp: render_def renderContent_def QuizCategorySelectionView_def
           split: if_splits option.splits view.splits)

text \<open>
  C4. When a session over the question list of the props, started by mounting the component
  and driven by any sequence of clicks, timeouts and re-mounts, ends by reporting a score,
  then the reported score is at most the reported total, the total is the number \<open>N\<close> of
  questions of the props, and the category is that of the props; and the props of a rendered
  quiz are the active category with its list in the quiz bank.
\<close>

theorem finalScore_le_total:
  assumes "run p (mount p) es = Unmounted (Some c, Some fs, Some tot)"
  shows "fs \<le> tot \<and> tot = length (quizData p) \<and> c = category p \<and>
         (render s = ActiveQuizView p \<longrightarrow>
            activeQuizCategory s = Some c \<and> map_of QUIZ_DATA c = Some (quizData p))"
proof -
  have "session_inv p (run p (mount p) es)"
    by (rule run_inv) (rule mount_inv)
  with assms have "fs \<le> tot \<and> tot = length (quizData p) \<and> c = category p"
    by simp
  with render_ActiveQuizView[of s p] show ?thesis by simp
qed

text \<open>The Physics attempt: two of three, in the quiz that the Physics button starts.\<close>

lemma physicsProps_eq:
  "physicsProps =
     \<lparr>category = ''Physics'',
      quizData =
        [\<lparr>question = ''What principle states that the total momentum of a closed system remains constant?'',
          options = [''Huygens' Principle'', ''Principle of Conservation of Momentum'',
                     ''Archimedes' Principle'', ''Bernoulli's Principle''],
          answer = ''Principle of Conservation of Momentum''\<rparr>,
         \<lparr>question = ''What is the SI unit of electric current?'',
          options = [''Volt'', ''Ohm'', ''Ampere'', ''Watt''],
          answer = ''Ampere''\<rparr>,
         \<lparr>question = ''Which phenomenon is responsible for the apparent bending of a spoon in a glass of water?'',
          options = [''Diffraction'', ''Refraction'', ''Polarization'', ''Interference''],
          answer = ''Refraction''\<rparr>]\<rparr>"
  by (simp add: physicsProps_def QUIZ_DATA_def)

lemma physicsAttempt_run:
  "run physicsProps (mount physicsProps) physicsAttempt = Unmounted (Some ''Physics'', Some 2, Some 3)"
  by (simp add: physicsProps_eq run_def mount_def physicsAttempt_def initialQuiz_def
        handleAnswerSelect_def handleNext_def timerCallback_def truthy_def index_opt_def Let_def)

lemma physics_render:
  "render (startQuiz ''Physics'' (takeQuiz readyApp)) = ActiveQuizView physicsProps"
  by (simp add: render_def renderContent_def QuizCategorySelectionView_def startQuiz_def
        takeQuiz_def readyApp_simps physicsProps_def QUIZ_DATA_def)

theorem finalScore_le_total_witness:
  "run physicsProps (mount physicsProps) physicsAttempt = Unmounted (Some ''Physics'', Some 2, Some 3)
   \<and> render (startQuiz ''Physics'' (takeQuiz readyApp)) = ActiveQuizView physicsProps
   \<and> (2::nat) \<le> 3 \<and> length (quizData physicsProps) = 3
   \<and> map_of QUIZ_DATA ''Physics'' = Some (quizData physicsProps)"
proof -
  have cat: "category physicsProps = ''Physics''"
    by (simp add: physicsProps_def)
  from finalScore_le_total[OF physicsAttempt_run, of "startQuiz ''Physics'' (takeQuiz readyApp)"]
    physics_render
  have "length (quizData physicsProps) = 3 \<and> map_of QUIZ_DATA ''Physics'' = Some (quizData physicsProps)"
    by (simp add: cat)
  with physicsAttempt_run physics_render show ?thesis by simp
qed

subsection \<open>Cancelling\<close>

lemma run_Unmounted: "run p (Unmounted c) es = Unmounted c"
  unfolding run_def by (induction es) simp_all

lemma run_Cons: "run p s (e # es) = run p (step p s e) es"
  by (simp add: run_def)

lemma run_append: "run p s (es @ es') = run p (run p s es) es'"
  by (simp add: run_def)

lemma onComplete_cancel: "onComplete (None, None, None) w s = s\<lparr>appState := Feed\<rparr>"
  by (simp add: onComplete_def)

lemma render_Feed:
  "render (s\<lparr>appState := Feed\<rparr>) \<noteq> ActiveQuizView p"
  by (simp add: render_def renderContent_def split: option.splits)

text \<open>
  C5. "Cancel Quiz" in any state \<open>q\<close> of the mounted quiz, at any index, with or without a
  timeout pending, calls \<^verbatim>\<open>onComplete(null, null, null)\<close>; nothing that happens later changes
  that (the unmount has cleared the timeout). The parent only leaves the quiz view:
  \<^verbatim>\<open>handleQuizComplete\<close> is not called, whatever a write would have done, so the stored
  verifications, the error state and the console are as before, no score or category
  reaches the completion handler, and the quiz is no longer rendered, its state gone with it.
\<close>

theorem cancel_reports_nothing:
  "run p (Mounted q) (Cancel # es) = Unmounted (None, None, None) \<and>
   finish (run p (Mounted q) (Cancel # es)) w s = s\<lparr>appState := Feed\<rparr> \<and>
   expert_verifications (finish (run p (Mounted q) (Cancel # es)) w s) = expert_verifications s \<and>
   error (finish (run p (Mounted q) (Cancel # es)) w s) = error s \<and>
   console (finish (run p (Mounted q) (Cancel # es)) w s) = console s \<and>
   activeQuizCategory (finish (run p (Mounted q) (Cancel # es)) w s) = activeQuizCategory s \<and>
   render (finish (run p (Mounted q) (Cancel # es)) w s) \<noteq> ActiveQuizView p'"
proof -
  have r: "run p (Mounted q) (Cancel # es) = Unmounted (None, None, None)"
    by (simp add: run_Cons run_Unmounted)
  have f: "finish (run p (Mounted q) (Cancel # es)) w s = s\<lparr>appState := Feed\<rparr>"
    by (simp add: r finish_def onComplete_cancel)
  show ?thesis
    unfolding f using r render_Feed[of s p'] by simp
qed

text \<open>
  Cancelling the Physics quiz during the delay after the second answer: the pending timeout
  does nothing any more, and the feed is shown.
\<close>

theorem cancel_reports_nothing_witness:
  "run physicsProps (mount physicsProps)
      ([Select ''Principle of Conservation of Momentum'', Next, TimerFires, Select ''Ampere'', Next]
        @ Cancel # [TimerFires])
     = Unmounted (None, None, None)
   \<and> finish (Unmounted (None, None, None)) (Resolved 7) (startQuiz ''Physics'' (takeQuiz readyApp))
       = (startQuiz ''Physics'' (takeQuiz readyApp))\<lparr>appState := Feed\<rparr>
   \<and> render (finish (Unmounted (None, None, None)) (Resolved 7) (startQuiz ''Physics'' (takeQuiz readyApp)))
       = QuestionFeedView"
proof -
  let ?q = "\<lparr>currentQuestionIndex = 1, score = 1, selectedOption = Some ''Ampere'',
             showResult = True, pendingAdvance = True,
             timerRef = Some \<lparr>isLastQuestion = False, finalScore = 2\<rparr>\<rparr>"
  let ?s = "startQuiz ''Physics'' (takeQuiz readyApp)"
  have pre: "run physicsProps (mount physicsProps)
      [Select ''Principle of Conservation of Momentum'', Next, TimerFires, Select ''Ampere'', Next]
      = Mounted ?q"
    by (simp add: physicsProps_eq run_def mount_def initialQuiz_def
        handleAnswerSelect_def handleNext_def timerCallback_def truthy_def index_opt_def Let_def)
  note t = cancel_reports_nothing[where p = physicsProps and q = ?q and es = "[TimerFires]"
             and w = "Resolved 7" and s = ?s and p' = physicsProps]
  have c: "run physicsProps (Mounted ?q) (Cancel # [TimerFires]) = Unmounted (None, None, None)"
    using t by blast
  have f: "finish (Unmounted (None, None, None)) (Resolved 7) ?s = ?s\<lparr>appState := Feed\<rparr>"
    using t unfolding c by blast
  have "render (?s\<lparr>appState := Feed\<rparr>) = QuestionFeedView"
    by (simp add: render_def renderContent_def startQuiz_def takeQuiz_def readyApp_simps)
  moreover have "run physicsProps (mount physicsProps)
      ([Select ''Principle of Conservation of Momentum'', Next, TimerFires, Select ''Ampere'', Next]
        @ Cancel # [TimerFires]) = Unmounted (None, None, None)"
    by (simp only: run_append pre c)
  ultimately show ?thesis
    using f by (simp only: simp_thms)
qed

subsection \<open>Selecting after the reveal\<close>

lemma run_selects_revealed:
  "showResult q \<Longrightarrow> run p (Mounted q) (map Select opts @ es) = run p (Mounted q) es"
  by (induction opts) (simp_all add: run_Cons handleAnswerSelect_def)

lemma handleNext_reveals:
  assumes "truthy (selectedOption q)" "\<not> showResult q" "\<not> pendingAdvance q"
    and "index_opt (quizData p) (currentQuestionIndex q) = Some cq"
  shows "\<exists>q'. handleNext p q = Inr q' \<and> showResult q' \<and> selectedOption q' = selectedOption q"
  using assms by (simp add: handleNext_def Let_def)

text \<open>
  C6. While the result of the current question is shown, \<^verbatim>\<open>handleAnswerSelect\<close> returns the
  state as it is, so any number of clicks on options changes nothing in what follows. In
  particular, clicks between a submit and its timeout do not change the outcome of the
  timeout: the score it carries was computed from the selection at the submit.
\<close>

theorem select_after_reveal:
  "(showResult q \<longrightarrow>
      handleAnswerSelect opt q = q \<and>
      run p (Mounted q) (map Select opts @ es) = run p (Mounted q) es) \<and>
   (truthy (selectedOption q) \<and> \<not> showResult q \<and> \<not> pendingAdvance q \<and>
    index_opt (quizData p) (currentQuestionIndex q) = Some cq \<longrightarrow>
      run p (Mounted q) (Next # map Select opts @ [TimerFires]) =
        run p (Mounted q) [Next, TimerFires])"
proof (intro conjI impI)
  assume "showResult q"
  then show "handleAnswerSelect opt q = q"
    by (simp add: handleAnswerSelect_def)
next
  assume "showResult q"
  then show "run p (Mounted q) (map Select opts @ es) = run p (Mounted q) es"
    by (rule run_selects_revealed)
next
  assume a: "truthy (selectedOption q) \<and> \<not> showResult q \<and> \<not> pendingAdvance q \<and>
    index_opt (quizData p) (currentQuestionIndex q) = Some cq"
  then obtain q' where q': "handleNext p q = Inr q'" "showResult q'"
    using handleNext_reveals[of q p cq] by blast
  then have "run p (Mounted q) (Next # map Select opts @ [TimerFires])
               = run p (Mounted q') (map Select opts @ [TimerFires])"
    by (simp add: run_Cons)
  also have "\<dots> = run p (Mounted q') [TimerFires]"
    using q'(2) by (rule run_selects_revealed)
  also have "\<dots> = run p (Mounted q) [Next, TimerFires]"
    using q'(1) by (simp add: run_Cons)
  finally show "run p (Mounted q) (Next # map Select opts @ [TimerFires]) =
        run p (Mounted q) [Next, TimerFires]" .
qed

text \<open>
  A wrong first answer is submitted and the right option is clicked during the delay: the
  quiz moves to the second question with the score 0.
\<close>

theorem select_after_reveal_witness:
  "truthy (selectedOption (initialQuiz\<lparr>selectedOption := Some ''Huygens' Principle''\<rparr>))
   \<and> index_opt (quizData physicsProps) 0 = Some \<lparr>question = ''What principle states that the total momentum of a closed system remains constant?'',
          options = [''Huygens' Principle'', ''Principle of Conservation of Momentum'',
                     ''Archimedes' Principle'', ''Bernoulli's Principle''],
          answer = ''Principle of Conservation of Momentum''\<rparr>
   \<and> run physicsProps (Mounted (initialQuiz\<lparr>selectedOption := Some ''Huygens' Principle''\<rparr>))
        (Next # map Select [''Principle of Conservation of Momentum''] @ [TimerFires])
      = Mounted (initialQuiz\<lparr>currentQuestionIndex := 1\<rparr>)"
proof -
  let ?q = "initialQuiz\<lparr>selectedOption := Some ''Huygens' Principle''\<rparr>"
  let ?cq = "\<lparr>question = ''What principle states that the total momentum of a closed system remains constant?'',
          options = [''Huygens' Principle'', ''Principle of Conservation of Momentum'',
                     ''Archimedes' Principle'', ''Bernoulli's Principle''],
          answer = ''Principle of Conservation of Momentum''\<rparr>"
  have i: "index_opt (quizData physicsProps) 0 = Some ?cq"
    by (simp add: index_opt_def physicsProps_eq)
  have g: "truthy (selectedOption ?q) \<and> \<not> showResult ?q \<and> \<not> pendingAdvance ?q \<and>
    index_opt (quizData physicsProps) (currentQuestionIndex ?q) = Some ?cq"
    using i by (simp add: truthy_def initialQuiz_def)
  have r: "run physicsProps (Mounted ?q) [Next, TimerFires] = Mounted (initialQuiz\<lparr>currentQuestionIndex := 1\<rparr>)"
    by (simp add: physicsProps_eq run_def initialQuiz_def
        handleNext_def timerCallback_def truthy_def index_opt_def Let_def)
  from select_after_reveal[of ?q _ physicsProps "[''Principle of Conservation of Momentum'']" _ ?cq] g
  have "run physicsProps (Mounted ?q) (Next # map Select [''Principle of Conservation of Momentum''] @ [TimerFires])
          = run physicsProps (Mounted ?q) [Next, TimerFires]"
    by blast
  with r g i show ?thesis by simp
qed

subsection \<open>A failed attempt\<close>

lemma handleQuizComplete_failed:
  assumes "\<not> passed fs tot"
  shows "handleQuizComplete c fs tot w s = (if listening s then s\<lparr>activeQuizCategory := None\<rparr> else s)"
  using assms by (auto simp: handleQuizComplete_def listening_def truthy_def split: option.splits)

lemma onComplete_scored:
  "c \<noteq> [] \<Longrightarrow> onComplete (Some c, Some fs, Some tot) w s = handleQuizComplete c fs tot w (s\<lparr>appState := Feed\<rparr>)"
  by (simp add: onComplete_def)

text \<open>
  C7. When \<^verbatim>\<open>passed\<close> is false, \<^verbatim>\<open>handleQuizComplete\<close> returns the state with at most
  \<^verbatim>\<open>activeQuizCategory\<close> reset: the result does not depend on what a write would do (none is
  attempted), the stored verifications are as before, and neither the error state nor the
  console receives anything. The function is total: the call completes. Reached through
  \<^verbatim>\<open>onComplete\<close>, the application is on the feed view afterwards and the quiz is not rendered.
\<close>

theorem failed_attempt_no_write:
  assumes "\<not> passed fs tot"
  shows "handleQuizComplete c fs tot w s = (if listening s then s\<lparr>activeQuizCategory := None\<rparr> else s) \<and>
         expert_verifications (handleQuizComplete c fs tot w s) = expert_verifications s \<and>
         error (handleQuizComplete c fs tot w s) = error s \<and>
         console (handleQuizComplete c fs tot w s) = console s \<and>
         (c \<noteq> [] \<longrightarrow>
            appState (onComplete (Some c, Some fs, Some tot) w s) = Feed \<and>
            render (onComplete (Some c, Some fs, Some tot) w s) \<noteq> ActiveQuizView p \<and>
            expert_verifications (onComplete (Some c, Some fs, Some tot) w s) = expert_verifications s \<and>
            error (onComplete (Some c, Some fs, Some tot) w s) = error s \<and>
            console (onComplete (Some c, Some fs, Some tot) w s) = console s)"
proof -
  have h: "handleQuizComplete c fs tot w s = (if listening s then s\<lparr>activeQuizCategory := None\<rparr> else s)" for s
    by (rule handleQuizComplete_failed[OF assms])
  have l: "listening (s\<lparr>appState := Feed\<rparr>) = listening s"
    by (simp add: listening_def)
  have r: "render (s\<lparr>appState := Feed, activeQuizCategory := None\<rparr>) \<noteq> ActiveQuizView p"
    by (simp add: render_def renderContent_def split: option.splits)
  show ?thesis
    using render_Feed[of s p] r by (simp add: h onComplete_scored l)
qed

text \<open>
  The Physics attempt with two of three: not passed, and after it the application is in the
  state it had before the quiz was opened, with no verified category and no error.
\<close>

theorem failed_attempt_no_write_witness:
  "\<not> passed 2 3
   \<and> run physicsProps (mount physicsProps) physicsAttempt = Unmounted (Some ''Physics'', Some 2, Some 3)
   \<and> finish (run physicsProps (mount physicsProps) physicsAttempt) Rejected
        (startQuiz ''Physics'' (takeQuiz readyApp)) = readyApp
   \<and> expert_verifications readyApp = Map.empty \<and> error readyApp = None
   \<and> render readyApp = QuestionFeedView"
proof -
  let ?s = "startQuiz ''Physics'' (takeQuiz readyApp)"
  have l: "listening (?s\<lparr>appState := Feed\<rparr>)"
    by (simp add: listening_def truthy_def startQuiz_def takeQuiz_def readyApp_simps)
  have e: "?s\<lparr>appState := Feed, activeQuizCategory := None\<rparr> = readyApp"
    by (simp add: startQuiz_def takeQuiz_def readyApp_simps)
  have "handleQuizComplete ''Physics'' 2 3 Rejected (?s\<lparr>appState := Feed\<rparr>) = readyApp"
    using failed_attempt_no_write[OF not_passed_2_3, of "''Physics''" Rejected "?s\<lparr>appState := Feed\<rparr>"] l e
    by simp
  then have "finish (run physicsProps (mount physicsProps) physicsAttempt) Rejected ?s = readyApp"
    by (simp add: physicsAttempt_run finish_def onComplete_scored)
  moreover have "render readyApp = QuestionFeedView"
    by (simp add: render_def renderContent_def readyApp_simps)
  ultimately show ?thesis
    using not_passed_2_3 physicsAttempt_run by (simp add: readyApp_simps)
qed

subsection \<open>Where errors go\<close>

text \<open>What each failing path does to the state, and what is rendered with an error set.\<close>

lemma authMessage_nonempty: "authMessage code \<noteq> []"
  by (simp add: authMessage_def Let_def)

lemma render_error:
  "error s = Some m \<Longrightarrow> m \<noteq> [] \<Longrightarrow>
     render s = (if isLoading s then LoadingScreen else ApplicationError m)"
  by (simp add: render_def)

lemma render_console: "render (s\<lparr>console := x\<rparr>) = render s"
proof -
  have "QuizCategorySelectionView (s\<lparr>console := x\<rparr>) = QuizCategorySelectionView s"
    by (simp add: QuizCategorySelectionView_def)
  then have "renderContent (s\<lparr>console := x\<rparr>) = renderContent s"
    by (simp add: renderContent_def split: view.splits)
  then show ?thesis
    by (simp add: render_def split: option.splits)
qed

lemma handlePostQuestion_rejected:
  assumes "listening s"
  shows "handlePostQuestion ti bo cat now Rejected s =
           s\<lparr>console := console s @ [''Error posting question:''],
             error := Some ''Could not post question. Check network connection or database permissions.''\<rparr>"
  using assms by (auto simp: handlePostQuestion_def listening_def truthy_def split: option.splits)

lemma handleQuizComplete_rejected:
  assumes "listening s" "passed fs tot"
  shows "handleQuizComplete c fs tot Rejected s =
           s\<lparr>console := console s @ [''Error updating verification status:''],
             error := Some (''Failed to verify expertise in '' @ c @ ''.''),
             activeQuizCategory := None\<rparr>"
  using assms by (auto simp: handleQuizComplete_def listening_def truthy_def split: option.splits)

lemma handleQuizComplete_no_identity:
  assumes "\<not> listening s"
  shows "handleQuizComplete c fs tot w s = s"
  using assms by (auto simp: handleQuizComplete_def listening_def truthy_def split: option.splits)

lemma handlePostQuestion_no_identity:
  assumes "\<not> listening s"
  shows "handlePostQuestion ti bo cat now w s = s"
  using assms by (auto simp: handlePostQuestion_def listening_def truthy_def split: option.splits)

lemma startupEffect_config:
  assumes "missingKeys cfg \<noteq> []"
  shows "startupEffect cfg r s =
           s\<lparr>error := Some (''Firebase config missing: '' @ join_str '', '' (missingKeys cfg)
                            @ ''. Check your .env and restart the dev server.''),
             isLoading := False\<rparr>"
  using assms by (simp add: startupEffect_def)

lemma startupEffect_signin:
  assumes "missingKeys cfg = []"
  shows "startupEffect cfg (SignInRejected code) s =
           s\<lparr>db := True, console := console s @ [''[Auth] sign-in error''],
             error := Some (authMessage code), isLoading := False\<rparr>"
  using assms by (simp add: startupEffect_def)

text \<open>
  C8, as stated, fails. The example user is on the feed; a failing question listener, a
  rejected post and a rejected verification write each put the "Application Error" screen in
  place of the whole interface.
\<close>

theorem errors_escalate_counterexample:
  "render readyApp = QuestionFeedView \<and>
   render (onQuestionsError readyApp) = ApplicationError ''Failed to load questions from database.'' \<and>
   render (handlePostQuestion ''Title'' ''Body'' ''Physics'' 5 Rejected readyApp) =
     ApplicationError ''Could not post question. Check network connection or database permissions.'' \<and>
   render (handleQuizComplete ''Physics'' 3 3 Rejected readyApp) =
     ApplicationError ''Failed to verify expertise in Physics.''"
  by (simp add: render_def renderContent_def onQuestionsError_def readyApp_simps
        handlePostQuestion_rejected[OF readyApp_listening]
        handleQuizComplete_rejected[OF readyApp_listening passed_3_3])

text \<open>
  C8, amended. The code has one error state, and every \<^verbatim>\<open>setError\<close> feeds it. An error of the
  question listener, a rejected \<^verbatim>\<open>addDoc\<close> and a rejected \<^verbatim>\<open>setDoc\<close> of a passed quiz set it as
  a missing configuration key and a rejected sign-in do, and once loading is over the error
  screen replaces the interface; a later snapshot does not clear it. Only an error of the
  verification listener stays out of it: the error state and the screen are as before.
\<close>

theorem errors_escalate:
  "render (onQuestionsError s) =
     (if isLoading s then LoadingScreen
      else ApplicationError ''Failed to load questions from database.'') \<and>
   (listening s \<longrightarrow>
      render (handlePostQuestion ti bo cat now Rejected s) =
        (if isLoading s then LoadingScreen
         else ApplicationError ''Could not post question. Check network connection or database permissions.'')) \<and>
   (listening s \<and> passed fs tot \<longrightarrow>
      render (handleQuizComplete c fs tot Rejected s) =
        (if isLoading s then LoadingScreen
         else ApplicationError (''Failed to verify expertise in '' @ c @ ''.''))) \<and>
   error (onVerificationError s) = error s \<and>
   render (onVerificationError s) = render s \<and>
   (missingKeys cfg \<noteq> [] \<longrightarrow>
      render (startupEffect cfg r s) =
        ApplicationError (''Firebase config missing: '' @ join_str '', '' (missingKeys cfg)
                            @ ''. Check your .env and restart the dev server.'')) \<and>
   (missingKeys cfg = [] \<longrightarrow>
      render (startupEffect cfg (SignInRejected code) s) = ApplicationError (authMessage code)) \<and>
   error (onQuestionsSnapshot list s) = error s \<and>
   error (onVerificationSnapshot uid snap s) = error s"
proof -
  have v: "render (onVerificationError s) = render s"
    by (simp add: onVerificationError_def render_console)
  have q: "render (onQuestionsError s) =
     (if isLoading s then LoadingScreen
      else ApplicationError ''Failed to load questions from database.'')"
    by (simp add: onQuestionsError_def render_def)
  have p: "render (handlePostQuestion ti bo cat now Rejected s) =
        (if isLoading s then LoadingScreen
         else ApplicationError ''Could not post question. Check network connection or database permissions.'')"
    if "listening s"
    by (simp add: handlePostQuestion_rejected[OF that] render_def)
  have h: "render (handleQuizComplete c fs tot Rejected s) =
        (if isLoading s then LoadingScreen
         else ApplicationError (''Failed to verify expertise in '' @ c @ ''.''))"
    if "listening s" "passed fs tot"
    by (simp add: handleQuizComplete_rejected[OF that] render_def)
  have c: "render (startupEffect cfg r s) =
        ApplicationError (''Firebase config missing: '' @ join_str '', '' (missingKeys cfg)
                            @ ''. Check your .env and restart the dev server.'')"
    if "missingKeys cfg \<noteq> []"
    by (simp add: startupEffect_config[OF that] render_def)
  have i: "render (startupEffect cfg (SignInRejected code) s) = ApplicationError (authMessage code)"
    if "missingKeys cfg = []"
    by (simp add: startupEffect_signin[OF that] render_def authMessage_nonempty)
  have e: "error (onVerificationError s) = error s" "error (onQuestionsSnapshot list s) = error s"
    "error (onVerificationSnapshot uid snap s) = error s"
    by (simp_all add: onVerificationError_def onQuestionsSnapshot_def onVerificationSnapshot_def
          split: option.splits)
  show ?thesis
    using v q p h c i e by blast
qed

text \<open>
  A missing \<^verbatim>\<open>appId\<close>, a sign-in rejected with an unlisted code, a rejected post and a rejected
  verification write all end on the error screen; the verification listener's error leaves
  the feed on screen.
\<close>

theorem errors_escalate_witness:
  "listening readyApp \<and> passed 3 3 \<and>
   missingKeys (exampleConfig\<lparr>appId := []\<rparr>) = [''appId''] \<and>
   render (startupEffect (exampleConfig\<lparr>appId := []\<rparr>) Observing (initialApp Map.empty [])) =
     ApplicationError ''Firebase config missing: appId. Check your .env and restart the dev server.'' \<and>
   missingKeys exampleConfig = [] \<and>
   render (startupEffect exampleConfig (SignInRejected (Some ''auth/network-request-failed''))
            (initialApp Map.empty [])) =
     ApplicationError ''Auth error: auth/network-request-failed'' \<and>
   render (handlePostQuestion ''Title'' ''Body'' ''General'' 5 Rejected readyApp) =
     ApplicationError ''Could not post question. Check network connection or database permissions.'' \<and>
   render (handleQuizComplete ''Physics'' 3 3 Rejected readyApp) =
     ApplicationError ''Failed to verify expertise in Physics.'' \<and>
   render (onVerificationError readyApp) = QuestionFeedView"
proof -
  have m: "missingKeys (exampleConfig\<lparr>appId := []\<rparr>) = [''appId'']" "missingKeys exampleConfig = []"
    by (simp_all add: missingKeys_def exampleConfig_def)
  have a: "authMessage (Some ''auth/network-request-failed'') = ''Auth error: auth/network-request-failed''"
    by (simp add: authMessage_def)
  have r: "render readyApp = QuestionFeedView"
    by (simp add: render_def renderContent_def readyApp_simps)
  note t1 = errors_escalate[where s = readyApp and fs = 3 and tot = 3 and c = "''Physics''"
      and ti = "''Title''" and bo = "''Body''" and cat = "''General''" and now = 5
      and cfg = "exampleConfig\<lparr>appId := []\<rparr>" and r = Observing and code = None
      and list = "[]" and uid = "[]" and snap = None]
  note t2 = errors_escalate[where s = "initialApp Map.empty []" and fs = 3 and tot = 3 and c = "''Physics''"
      and ti = "''Title''" and bo = "''Body''" and cat = "''General''" and now = 5
      and cfg = "exampleConfig\<lparr>appId := []\<rparr>" and r = Observing and code = None
      and list = "[]" and uid = "[]" and snap = None]
  note t3 = errors_escalate[where s = "initialApp Map.empty []" and fs = 3 and tot = 3 and c = "''Physics''"
      and ti = "''Title''" and bo = "''Body''" and cat = "''General''" and now = 5
      and cfg = exampleConfig and r = Observing and code = "Some ''auth/network-request-failed''"
      and list = "[]" and uid = "[]" and snap = None]
  show ?thesis
    using t1 t2 t3 readyApp_listening passed_3_3
    by (simp add: m a r readyApp_simps)
qed

subsection \<open>What a failure tells\<close>

lemma signedOutApp_simps:
  "db signedOutApp" "userId signedOutApp = None" "displayName signedOutApp = None"
  "isLoading signedOutApp = False" "appState signedOutApp = Feed"
  "activeQuizCategory signedOutApp = None" "userVerifications signedOutApp = []"
  "error signedOutApp = None" "console signedOutApp = []"
  "expert_verifications signedOutApp = Map.empty"
  by (simp_all add: signedOutApp_def onAuthStateChanged_def startupEffect_def missingKeys_def
        exampleConfig_def initialApp_def)

lemma signedOutApp_not_listening: "\<not> listening signedOutApp"
  by (simp add: listening_def truthy_def signedOutApp_simps)

text \<open>
  C9, as stated, fails. With nobody signed in the quiz can still be opened, and
  \<^verbatim>\<open>handleQuizComplete\<close> returns at its guard \<^verbatim>\<open>if (!db || !userId) return\<close>: for a passed quiz,
  whether the write would resolve or reject, and for a failed one alike, the state is the
  one before, with no error, nothing on the console and nothing stored.
\<close>

theorem silent_without_identity_counterexample:
  "userId signedOutApp = None \<and> passed 3 3 \<and> \<not> passed 2 3 \<and>
   render (startQuiz ''Physics'' (takeQuiz signedOutApp)) = ActiveQuizView physicsProps \<and>
   handleQuizComplete ''Physics'' 3 3 (Resolved 7) signedOutApp = signedOutApp \<and>
   handleQuizComplete ''Physics'' 3 3 Rejected signedOutApp = signedOutApp \<and>
   handleQuizComplete ''Physics'' 2 3 (Resolved 7) signedOutApp = signedOutApp \<and>
   error signedOutApp = None \<and> console signedOutApp = [] \<and>
   expert_verifications signedOutApp ''u1234567890'' = None"
proof -
  have "render (startQuiz ''Physics'' (takeQuiz signedOutApp)) = ActiveQuizView physicsProps"
    by (simp add: render_def renderContent_def QuizCategorySelectionView_def startQuiz_def
        takeQuiz_def signedOutApp_simps physicsProps_def QUIZ_DATA_def)
  then show ?thesis
    by (simp add: handleQuizComplete_no_identity[OF signedOutApp_not_listening]
          signedOutApp_simps passed_3_3 not_passed_2_3)
qed

text \<open>
  C9, amended. A rejected write of a passed quiz sets the error state to a message naming
  the category and logs to the console, which a failed attempt never does. A rejected post,
  an error of the question listener, a missing configuration key, a rejected sign-in and an
  exception during start-up set the error state; an error of the verification listener is
  logged to the console only. Without an identity or a database handle,
  \<^verbatim>\<open>handleQuizComplete\<close> and \<^verbatim>\<open>handlePostQuestion\<close> return the state unchanged.
\<close>

theorem failure_signals:
  "(listening s \<and> passed fs tot \<longrightarrow>
      error (handleQuizComplete c fs tot Rejected s) =
        Some (''Failed to verify expertise in '' @ c @ ''.'') \<and>
      console (handleQuizComplete c fs tot Rejected s) =
        console s @ [''Error updating verification status:'']) \<and>
   (\<not> passed fs tot \<longrightarrow>
      error (handleQuizComplete c fs tot w s) = error s \<and>
      console (handleQuizComplete c fs tot w s) = console s) \<and>
   (\<not> listening s \<longrightarrow>
      handleQuizComplete c fs tot w s = s \<and> handlePostQuestion ti bo cat now pw s = s) \<and>
   (listening s \<longrightarrow>
      error (handlePostQuestion ti bo cat now Rejected s) =
        Some ''Could not post question. Check network connection or database permissions.'' \<and>
      console (handlePostQuestion ti bo cat now Rejected s) =
        console s @ [''Error posting question:'']) \<and>
   error (onQuestionsError s) = Some ''Failed to load questions from database.'' \<and>
   console (onQuestionsError s) = console s @ [''Error fetching questions:''] \<and>
   error (onVerificationError s) = error s \<and>
   console (onVerificationError s) = console s @ [''Error fetching verifications:''] \<and>
   (missingKeys cfg \<noteq> [] \<longrightarrow>
      error (startupEffect cfg r s) =
        Some (''Firebase config missing: '' @ join_str '', '' (missingKeys cfg)
               @ ''. Check your .env and restart the dev server.'')) \<and>
   (missingKeys cfg = [] \<longrightarrow>
      error (startupEffect cfg (SignInRejected code) s) = Some (authMessage code) \<and>
      error (startupEffect cfg (InitThrows m) s) = Some (''Firebase init error: '' @ m))"
proof -
  have a: "error (handleQuizComplete c fs tot Rejected s) =
        Some (''Failed to verify expertise in '' @ c @ ''.'') \<and>
      console (handleQuizComplete c fs tot Rejected s) =
        console s @ [''Error updating verification status:'']"
    if "listening s" "passed fs tot"
    by (simp add: handleQuizComplete_rejected[OF that])
  have b: "error (handleQuizComplete c fs tot w s) = error s \<and>
      console (handleQuizComplete c fs tot w s) = console s"
    if "\<not> passed fs tot"
    by (simp add: handleQuizComplete_failed[OF that])
  have n: "handleQuizComplete c fs tot w s = s \<and> handlePostQuestion ti bo cat now pw s = s"
    if "\<not> listening s"
    by (simp add: handleQuizComplete_no_identity[OF that] handlePostQuestion_no_identity[OF that])
  have p: "error (handlePostQuestion ti bo cat now Rejected s) =
        Some ''Could not post question. Check network connection or database permissions.'' \<and>
      console (handlePostQuestion ti bo cat now Rejected s) =
        console s @ [''Error posting question:'']"
    if "listening s"
    by (simp add: handlePostQuestion_rejected[OF that])
  have q: "error (onQuestionsError s) = Some ''Failed to load questions from database.''"
    "console (onQuestionsError s) = console s @ [''Error fetching questions:'']"
    "error (onVerificationError s) = error s"
    "console (onVerificationError s) = console s @ [''Error fetching verifications:'']"
    by (simp_all add: onQuestionsError_def onVerificationError_def)
  have g: "error (startupEffect cfg r s) =
        Some (''Firebase config missing: '' @ join_str '', '' (missingKeys cfg)
               @ ''. Check your .env and restart the dev server.'')"
    if "missingKeys cfg \<noteq> []"
    by (simp add: startupEffect_config[OF that])
  have i: "error (startupEffect cfg (SignInRejected code) s) = Some (authMessage code) \<and>
      error (startupEffect cfg (InitThrows m) s) = Some (''Firebase init error: '' @ m)"
    if "missingKeys cfg = []"
    using that by (simp add: startupEffect_def)
  show ?thesis
    using a b n p q g i by blast
qed

text \<open>
  The example user: a rejected write after three of three sets the message, two of three
  sets none; signed out, three of three changes nothing.
\<close>

theorem failure_signals_witness:
  "listening readyApp \<and> passed 3 3 \<and> \<not> passed 2 3 \<and> \<not> listening signedOutApp \<and>
   error (handleQuizComplete ''Physics'' 3 3 Rejected readyApp) =
     Some ''Failed to verify expertise in Physics.'' \<and>
   error (handleQuizComplete ''Physics'' 2 3 Rejected readyApp) = None \<and>
   handleQuizComplete ''Physics'' 3 3 Rejected signedOutApp = signedOutApp \<and>
   missingKeys exampleConfig = [] \<and>
   error (startupEffect exampleConfig (InitThrows ''app/duplicate-app'') (initialApp Map.empty [])) =
     Some ''Firebase init error: app/duplicate-app''"
proof -
  have m: "missingKeys exampleConfig = []"
    by (simp add: missingKeys_def exampleConfig_def)
  note t1 = failure_signals[where s = readyApp and fs = 3 and tot = 3 and c = "''Physics''"
      and w = Rejected and pw = Rejected and ti = "[]" and bo = "[]" and cat = "[]" and now = 0
      and cfg = exampleConfig and r = Observing and code = None and m = "''app/duplicate-app''"]
  note t2 = failure_signals[where s = readyApp and fs = 2 and tot = 3 and c = "''Physics''"
      and w = Rejected and pw = Rejected and ti = "[]" and bo = "[]" and cat = "[]" and now = 0
      and cfg = exampleConfig and r = Observing and code = None and m = "''app/duplicate-app''"]
  note t3 = failure_signals[where s = signedOutApp and fs = 3 and tot = 3 and c = "''Physics''"
      and w = Rejected and pw = Rejected and ti = "[]" and bo = "[]" and cat = "[]" and now = 0
      and cfg = exampleConfig and r = Observing and code = None and m = "''app/duplicate-app''"]
  note t4 = failure_signals[where s = "initialApp Map.empty []" and fs = 3 and tot = 3 and c = "''Physics''"
      and w = Rejected and pw = Rejected and ti = "[]" and bo = "[]" and cat = "[]" and now = 0
      and cfg = exampleConfig and r = Observing and code = None and m = "''app/duplicate-app''"]
  show ?thesis
    using t1 t2 t3 t4 readyApp_listening signedOutApp_not_listening passed_3_3 not_passed_2_3
    by (simp add: m readyApp_simps)
qed

subsection \<open>A user without a verification document\<close>

lemma currentUserVerifications_delivered:
  assumes "listening s" "userId s = Some uid" "expert_verifications s uid = None"
  shows "currentUserVerifications (deliverVerification s) =
           \<lparr>displayName_v = None, verifiedCategories = Some [], lastUpdated = None, id_v = uid\<rparr>"
  using assms
  by (simp add: deliverVerification_def onVerificationSnapshot_def currentUserVerifications_def
        listening_def truthy_def)

lemma deliverVerification_fields:
  "db (deliverVerification s) = db s" "userId (deliverVerification s) = userId s"
  "displayName (deliverVerification s) = displayName s"
  "expert_verifications (deliverVerification s) = expert_verifications s"
  by (simp_all add: deliverVerification_def onVerificationSnapshot_def split: option.splits)

text \<open>
  C10. For a signed-in user whose document is absent from the store, the snapshot handler
  stores a record with the user's id and the empty category list, and that record is the
  client's view (as is the fallback record before any snapshot has arrived): the categories
  are present and empty, the user is verified in no category, and a first pass, its write
  resolving, stores exactly the one new category.
\<close>

theorem absent_document_view:
  assumes "listening s" "userId s = Some uid" "expert_verifications s uid = None"
  shows "currentUserVerifications (deliverVerification s) =
           \<lparr>displayName_v = None, verifiedCategories = Some [], lastUpdated = None, id_v = uid\<rparr> \<and>
         (userVerifications s = [] \<longrightarrow>
            currentUserVerifications s =
              \<lparr>displayName_v = None, verifiedCategories = Some [], lastUpdated = None, id_v = uid\<rparr>) \<and>
         \<not> isVerified (deliverVerification s) cat \<and>
         (passed fs tot \<longrightarrow>
            expert_verifications (handleQuizComplete c fs tot (Resolved ts) (deliverVerification s)) uid =
              Some \<lparr>displayName_v = displayName s, verifiedCategories = Some [c],
                    lastUpdated = Some ts\<rparr>)"
proof -
  note v = currentUserVerifications_delivered[OF assms]
  have u: "uid \<noteq> []"
    using assms(1,2) by (simp add: listening_def truthy_def)
  have e: "currentUserVerifications s =
              \<lparr>displayName_v = None, verifiedCategories = Some [], lastUpdated = None, id_v = uid\<rparr>"
    if "userVerifications s = []"
    using that assms(2) u by (simp add: currentUserVerifications_def)
  have n: "\<not> isVerified (deliverVerification s) cat"
    by (simp add: isVerified_def v)
  have l: "listening (deliverVerification s)"
    using assms(1) by (simp add: listening_def deliverVerification_fields)
  have w: "expert_verifications (handleQuizComplete c fs tot (Resolved ts) (deliverVerification s)) uid =
              Some \<lparr>displayName_v = displayName s, verifiedCategories = Some [c],
                    lastUpdated = Some ts\<rparr>"
    if "passed fs tot"
  proof -
    have "userId (deliverVerification s) = Some uid"
      using assms(2) by (simp add: deliverVerification_fields)
    from handleQuizComplete_write[OF l that this, of c ts] show ?thesis
      by (simp add: v newCategories_def or_empty_def deliverVerification_fields)
  qed
  show ?thesis
    using v e n w by blast
qed

text \<open>
  The example user with the empty store passes Financial Modeling with one of one: the
  stored list is that category alone.
\<close>

theorem absent_document_view_witness:
  "listening readyApp \<and> userId readyApp = Some ''u1234567890'' \<and>
   expert_verifications readyApp ''u1234567890'' = None \<and> passed 1 1 \<and>
   currentUserVerifications (deliverVerification readyApp) =
     \<lparr>displayName_v = None, verifiedCategories = Some [], lastUpdated = None,
      id_v = ''u1234567890''\<rparr> \<and>
   \<not> isVerified (deliverVerification readyApp) ''Financial Modeling'' \<and>
   expert_verifications
     (handleQuizComplete ''Financial Modeling'' 1 1 (Resolved 9) (deliverVerification readyApp))
     ''u1234567890'' =
     Some \<lparr>displayName_v = Some ''User-u1234567'', verifiedCategories = Some [''Financial Modeling''],
           lastUpdated = Some 9\<rparr>"
proof -
  have u: "userId readyApp = Some ''u1234567890''" by (simp add: readyApp_simps)
  have e: "expert_verifications readyApp ''u1234567890'' = None" by (simp add: readyApp_simps)
  have p: "passed 1 1" using passed_iff[of 1 1] by simp
  from absent_document_view[OF readyApp_listening u e, of "''Financial Modeling''" 1 1
         "''Financial Modeling''" 9] p readyApp_listening u e
  show ?thesis
    by (simp add: readyApp_simps)
qed

subsection \<open>The merge and the client's record\<close>













end
